theory Spec2Isabelle
  imports Main
begin

section \<open>The credential file\<close>

text \<open>
  \<^verbatim>\<open>app.py\<close> keeps its accounts in \<^verbatim>\<open>users.json\<close>, a JSON array of objects with the
  five keys written by \<^verbatim>\<open>register_user\<close>. A stored object is a record; the file is either
  absent (\<open>None\<close>) or holds a sequence of such records (\<open>Some users\<close>). Strings are
  Python \<^verbatim>\<open>str\<close> values; the model ranges over \<^verbatim>\<open>str\<close> arguments and over files that parse
  to such arrays.
\<close>

record user =
  email :: string
  password :: string
  first_name :: string
  last_name :: string
  created_at :: string

type_synonym user_db = "user list option"

text \<open>
  \<^verbatim>\<open>init_user_db\<close> writes \<^verbatim>\<open>[]\<close> when the file does not exist and leaves an existing file
  alone. Afterwards the file exists in either case, so the function returns its content.
\<close>

definition init_user_db :: "user_db \<Rightarrow> user list" where
  "init_user_db db = (case db of None \<Rightarrow> [] | Some users \<Rightarrow> users)"

text \<open>\<^verbatim>\<open>get_users\<close>: initialise, then read the whole file. The file is returned as it is left.\<close>

definition get_users :: "user_db \<Rightarrow> user list \<times> user_db" where
  "get_users db = (let file = init_user_db db in (file, Some file))"

text \<open>\<^verbatim>\<open>save_users\<close>: open for writing (creating or truncating) and dump the list.\<close>

definition save_users :: "user list \<Rightarrow> user_db \<Rightarrow> user_db" where
  "save_users users db = Some users"

text \<open>The loop of \<^verbatim>\<open>find_user\<close>: the first record whose email equals the argument.\<close>

fun find_in :: "string \<Rightarrow> user list \<Rightarrow> user option" where
  "find_in em [] = None"
| "find_in em (u # us) = (if email u = em then Some u else find_in em us)"

definition find_user :: "string \<Rightarrow> user_db \<Rightarrow> user option \<times> user_db" where
  "find_user em db = (let (users, db') = get_users db in (find_in em users, db'))"

section \<open>Registration and verification\<close>

text \<open>
  \<^verbatim>\<open>generate_password_hash\<close> and \<^verbatim>\<open>check_password_hash\<close> come from werkzeug and are
  parameters \<open>gen\<close> and \<open>check\<close> of the model. \<^verbatim>\<open>generate_password_hash\<close> draws a
  fresh salt at every call: the salt of the call is the first argument of \<open>gen\<close>.
  \<^verbatim>\<open>datetime.now().isoformat()\<close> is the parameter \<open>now\<close>.

  \<^verbatim>\<open>register_user\<close> returns \<^verbatim>\<open>(False, "Email already registered")\<close> or \<^verbatim>\<open>(True, "")\<close>;
  a found record is a non-empty dict, hence truthy.
\<close>

definition register_user ::
  "(string \<Rightarrow> string \<Rightarrow> string) \<Rightarrow> string \<Rightarrow> string \<Rightarrow>
   string \<Rightarrow> string \<Rightarrow> string \<Rightarrow> string \<Rightarrow> user_db \<Rightarrow> (bool \<times> string) \<times> user_db" where
  "register_user gen salt now em pw fn ln db =
     (case find_user em db of
        (Some u, db1) \<Rightarrow> ((False, ''Email already registered''), db1)
      | (None, db1) \<Rightarrow>
          (let (users, db2) = get_users db1;
               users' = users @ [\<lparr>email = em, password = gen salt pw, first_name = fn,
                                  last_name = ln, created_at = now\<rparr>]
           in ((True, ''''), save_users users' db2)))"

text \<open>
  \<^verbatim>\<open>verify_user\<close> returns \<^verbatim>\<open>(False, "User not found")\<close>, \<^verbatim>\<open>(False, "Incorrect password")\<close>
  or \<^verbatim>\<open>(True, user)\<close>, where \<^verbatim>\<open>user\<close> is the dict that \<^verbatim>\<open>find_user\<close> returned.
\<close>

definition verify_user ::
  "(string \<Rightarrow> string \<Rightarrow> bool) \<Rightarrow> string \<Rightarrow> string \<Rightarrow> user_db \<Rightarrow>
   (bool \<times> (string + user)) \<times> user_db" where
  "verify_user check em pw db =
     (case find_user em db of
        (None, db1) \<Rightarrow> ((False, Inl ''User not found''), db1)
      | (Some u, db1) \<Rightarrow>
          (if \<not> check (password u) pw then ((False, Inl ''Incorrect password''), db1)
           else ((True, Inr u), db1)))"

text \<open>The spec's names for the three failures of the Auth Service.\<close>

definition DuplicateEmail :: "bool \<times> string" where
  "DuplicateEmail = (False, ''Email already registered'')"

definition UserNotFound :: "bool \<times> (string + user)" where
  "UserNotFound = (False, Inl ''User not found'')"

definition BadPassword :: "bool \<times> (string + user)" where
  "BadPassword = (False, Inl ''Incorrect password'')"

text \<open>
  Stand-ins for the two werkzeug functions, to run the model on concrete inputs:
  the salt, a separator and the reversed password; the check recomputes the tail.
\<close>

definition demo_gen :: "string \<Rightarrow> string \<Rightarrow> string" where
  "demo_gen salt pw = salt @ ''$'' @ rev pw"

definition demo_check :: "string \<Rightarrow> string \<Rightarrow> bool" where
  "demo_check pwhash pw = (drop (length pwhash - Suc (length pw)) pwhash = ''$'' @ rev pw)"

text \<open>
  A sample record: what the sign-up of A B with password \<^verbatim>\<open>pw\<close> leaves in the file when
  the salt drawn is \<^verbatim>\<open>s\<close>, under the stand-in hash.
\<close>

definition alice :: user where
  "alice = \<lparr>email = ''a@x.com'', password = ''s$wp'', first_name = ''A'',
             last_name = ''B'', created_at = ''2024-01-01T00:00:00''\<rparr>"

text \<open>The records the credential store holds: those of the file, none when it is absent.\<close>

definition stored :: "user_db \<Rightarrow> user list" where
  "stored db = (case db of None \<Rightarrow> [] | Some users \<Rightarrow> users)"

text \<open>
  Histories of the Auth Service: calls of the two operations, run in order from a given
  file. The store states reachable in a deployment are those run from the absent file.
\<close>

datatype auth_call =
    Register string string string string string string
  | Verify string string

fun run_call ::
  "(string \<Rightarrow> string \<Rightarrow> string) \<Rightarrow> (string \<Rightarrow> string \<Rightarrow> bool) \<Rightarrow> auth_call \<Rightarrow> user_db \<Rightarrow> user_db" where
  "run_call gen check (Register salt now em pw fn ln) db =
     snd (register_user gen salt now em pw fn ln db)"
| "run_call gen check (Verify em pw) db = snd (verify_user check em pw db)"

fun run_calls ::
  "(string \<Rightarrow> string \<Rightarrow> string) \<Rightarrow> (string \<Rightarrow> string \<Rightarrow> bool) \<Rightarrow> auth_call list \<Rightarrow> user_db \<Rightarrow> user_db" where
  "run_calls gen check [] db = db"
| "run_calls gen check (c # cs) db = run_calls gen check cs (run_call gen check c db)"

section \<open>JSON values and Python's operations on them\<close>

text \<open>
  What \<^verbatim>\<open>response.json()\<close> and \<^verbatim>\<open>request.json\<close> deliver. An object is an association
  list, looked up with \<open>map_of\<close>. Of a number only its truthiness is ever used, so
  integers stand for all numbers.
\<close>

datatype json =
    JNull
  | JBool bool
  | JNum int
  | JStr string
  | JArr "json list"
  | JObj "(string \<times> json) list"

text \<open>
  The exceptions that can arise in the handlers. The first three are subclasses of
  \<^verbatim>\<open>httpx.RequestError\<close>; \<^verbatim>\<open>httpx.HTTPStatusError\<close> derives from \<^verbatim>\<open>httpx.HTTPError\<close>
  directly and is no \<^verbatim>\<open>RequestError\<close>. \<open>CancelledError\<close> stands for the exceptions
  that derive from \<^verbatim>\<open>BaseException\<close> only.
\<close>

datatype exn =
    TimeoutException
  | ConnectError
  | OtherRequestError
  | HTTPStatusError nat
  | JSONDecodeError
  | AttributeError
  | KeyError
  | TypeError
  | IndexError
  | OtherException
  | CancelledError

fun is_RequestError :: "exn \<Rightarrow> bool" where
  "is_RequestError TimeoutException = True"
| "is_RequestError ConnectError = True"
| "is_RequestError OtherRequestError = True"
| "is_RequestError _ = False"

fun is_Exception :: "exn \<Rightarrow> bool" where
  "is_Exception CancelledError = False"
| "is_Exception _ = True"

text \<open>Sequencing of computations that may raise.\<close>

definition and_then :: "exn + 'a \<Rightarrow> ('a \<Rightarrow> exn + 'b) \<Rightarrow> exn + 'b" where
  "and_then m f = (case m of Inl e \<Rightarrow> Inl e | Inr v \<Rightarrow> f v)"

text \<open>Truth value of a Python object in a condition.\<close>

fun truthy :: "json \<Rightarrow> bool" where
  "truthy JNull = False"
| "truthy (JBool b) = b"
| "truthy (JNum n) = (n \<noteq> 0)"
| "truthy (JStr s) = (s \<noteq> [])"
| "truthy (JArr xs) = (xs \<noteq> [])"
| "truthy (JObj kvs) = (kvs \<noteq> [])"

text \<open>
  The three accesses the handlers use: \<^verbatim>\<open>x[key]\<close> with a string key, \<^verbatim>\<open>x[0]\<close> and
  \<^verbatim>\<open>x.get(key, default)\<close>. Only a dict has \<^verbatim>\<open>get\<close>; a dict from JSON has no key \<^verbatim>\<open>0\<close>.
\<close>

fun py_item :: "json \<Rightarrow> string \<Rightarrow> exn + json" where
  "py_item (JObj kvs) k = (case map_of kvs k of None \<Rightarrow> Inl KeyError | Some v \<Rightarrow> Inr v)"
| "py_item _ k = Inl TypeError"

fun py_item0 :: "json \<Rightarrow> exn + json" where
  "py_item0 (JArr []) = Inl IndexError"
| "py_item0 (JArr (v # vs)) = Inr v"
| "py_item0 (JStr []) = Inl IndexError"
| "py_item0 (JStr (c # cs)) = Inr (JStr [c])"
| "py_item0 (JObj kvs) = Inl KeyError"
| "py_item0 _ = Inl TypeError"

fun py_get :: "json \<Rightarrow> string \<Rightarrow> json \<Rightarrow> exn + json" where
  "py_get (JObj kvs) k d = (case map_of kvs k of None \<Rightarrow> Inr d | Some v \<Rightarrow> Inr v)"
| "py_get _ k d = Inl AttributeError"

text \<open>
  \<^verbatim>\<open>str.strip()\<close> removes leading and trailing whitespace; the whitespace characters
  below code point 256 are listed.
\<close>

definition py_isspace :: "char \<Rightarrow> bool" where
  "py_isspace c = (let n = (of_char c :: nat) in
     (9 \<le> n \<and> n \<le> 13) \<or> (28 \<le> n \<and> n \<le> 32) \<or> n = 133 \<or> n = 160)"

definition strip :: "string \<Rightarrow> string" where
  "strip s = rev (dropWhile py_isspace (rev (dropWhile py_isspace s)))"

section \<open>The AI gateway\<close>

text \<open>
  The outcome of \<^verbatim>\<open>await client.post(api_url, json=payload)\<close>: it raises, or it returns
  a response with a status code and a body; the body is \<open>None\<close> when it is not JSON,
  and then \<^verbatim>\<open>response.json()\<close> raises.
\<close>

datatype post_result = Raises exn | Response nat "json option"

definition raise_for_status :: "nat \<Rightarrow> exn + unit" where
  "raise_for_status status =
     (if 200 \<le> status \<and> status < 300 then Inr () else Inl (HTTPStatusError status))"

definition response_json :: "json option \<Rightarrow> exn + json" where
  "response_json body = (case body of None \<Rightarrow> Inl JSONDecodeError | Some v \<Rightarrow> Inr v)"

text \<open>The key is a parameter here; the endpoint is the source's.\<close>

definition api_url :: "string \<Rightarrow> string" where
  "api_url api_key =
     ''https://generativelanguage.googleapis.com/v1beta/models/'' @
     ''gemini-2.5-flash-preview-05-20:generateContent?key='' @ api_key"

definition text_part :: "string \<Rightarrow> json" where
  "text_part s = JArr [JObj [(''text'', JStr s)]]"

definition payload :: "string \<Rightarrow> json" where
  "payload user_message = JObj [(''contents'', JArr [
      JObj [(''role'', JStr ''user''),
            (''parts'', text_part ''You are HealthAI, a helpful and responsible AI assistant.'')],
      JObj [(''role'', JStr ''model''),
            (''parts'', text_part ''Understood. I am HealthAI. How can I help?'')],
      JObj [(''role'', JStr ''user''), (''parts'', text_part user_message)]])]"

text \<open>
  \<^verbatim>\<open>result['candidates'][0]\<close> and \<^verbatim>\<open>result['candidates'][0]['content']\<close>, which the source
  writes out at each use.
\<close>

definition candidate0 :: "json \<Rightarrow> exn + json" where
  "candidate0 result = and_then (py_item result ''candidates'') py_item0"

definition content0 :: "json \<Rightarrow> exn + json" where
  "content0 result = and_then (candidate0 result) (\<lambda>c. py_item c ''content'')"

text \<open>The condition of the \<^verbatim>\<open>if\<close>: a chain of \<^verbatim>\<open>and\<close>, evaluated left to right.\<close>

definition has_parts :: "json \<Rightarrow> exn + bool" where
  "has_parts result =
     and_then (py_get result ''candidates'' JNull) (\<lambda>a.
       if \<not> truthy a then Inr False
       else and_then (candidate0 result) (\<lambda>c.
         and_then (py_get c ''content'' JNull) (\<lambda>b.
           if \<not> truthy b then Inr False
           else and_then (content0 result) (\<lambda>d.
             and_then (py_get d ''parts'' JNull) (\<lambda>p. Inr (truthy p))))))"

definition no_response :: string where
  "no_response = ''I'' @ [CHR 0x27] @ ''m sorry, I couldn'' @ [CHR 0x27] @
     ''t generate a response at the moment.''"

text \<open>The body of the \<^verbatim>\<open>try\<close> block.\<close>

definition request_reply :: "post_result \<Rightarrow> exn + json" where
  "request_reply r =
     (case r of
        Raises e \<Rightarrow> Inl e
      | Response status body \<Rightarrow>
          and_then (raise_for_status status) (\<lambda>_.
            and_then (response_json body) (\<lambda>result.
              and_then (has_parts result) (\<lambda>ok.
                if ok then
                  and_then (content0 result) (\<lambda>d.
                    and_then (py_item d ''parts'') (\<lambda>ps.
                      and_then (py_item0 ps) (\<lambda>p. py_item p ''text'')))
                else Inr (JStr no_response)))))"

definition connect_fallback :: string where
  "connect_fallback = ''Error: Could not connect to the AI service.''"

definition unexpected_fallback :: string where
  "unexpected_fallback = ''An unexpected error occurred while generating the response.''"

text \<open>
  \<^verbatim>\<open>generate_ai_response\<close>: the \<^verbatim>\<open>try\<close> block with its two handlers, \<^verbatim>\<open>except
  httpx.RequestError\<close> first and \<^verbatim>\<open>except Exception\<close> second. What neither handler
  catches reaches the caller (\<open>Inl\<close>). \<open>post\<close> is the remote service: the outcome of
  the request for a given URL and payload.
\<close>

definition generate_ai_response ::
  "(string \<Rightarrow> json \<Rightarrow> post_result) \<Rightarrow> string \<Rightarrow> string \<Rightarrow> exn + json" where
  "generate_ai_response post api_key user_message =
     (case request_reply (post (api_url api_key) (payload user_message)) of
        Inr reply \<Rightarrow> Inr reply
      | Inl e \<Rightarrow>
          if is_RequestError e then Inr (JStr connect_fallback)
          else if is_Exception e then Inr (JStr unexpected_fallback)
          else Inl e)"

section \<open>The chat endpoint\<close>

text \<open>
  \<^verbatim>\<open>send_message\<close> returns a JSON body with a status code, or raises. The second
  component of the result lists the messages passed to \<^verbatim>\<open>generate_ai_response\<close>, in
  order. The session is the dict of the signed cookie; \<open>data\<close> is \<^verbatim>\<open>request.json\<close>.
  Only a \<^verbatim>\<open>str\<close> has \<^verbatim>\<open>strip\<close>: on any other message the call raises.
\<close>

definition send_message ::
  "(string \<Rightarrow> json \<Rightarrow> post_result) \<Rightarrow> string \<Rightarrow> (string \<times> json) list \<Rightarrow> json \<Rightarrow>
   (exn + json \<times> nat) \<times> string list" where
  "send_message post api_key session data =
     (if map_of session ''user'' = None then
        (Inr (JObj [(''error'', JStr ''Not logged in'')], 401), [])
      else
        case py_get data ''message'' (JStr []) of
          Inl e \<Rightarrow> (Inl e, [])
        | Inr (JStr user_message) \<Rightarrow>
            if strip user_message = [] then
              (Inr (JObj [(''error'', JStr ''Message cannot be empty'')], 400), [])
            else
              (case generate_ai_response post api_key user_message of
                 Inl e \<Rightarrow> (Inl e, [user_message])
               | Inr ai_reply \<Rightarrow> (Inr (JObj [(''reply'', ai_reply)], 200), [user_message]))
        | Inr _ \<Rightarrow> (Inl AttributeError, []))"

text \<open>A remote service that gives the same outcome to every request.\<close>

definition always :: "post_result \<Rightarrow> string \<Rightarrow> json \<Rightarrow> post_result" where
  "always r url body = r"

section \<open>Basic facts\<close>

lemma find_in_None: "find_in em us = None \<longleftrightarrow> (\<forall>u \<in> set us. email u \<noteq> em)"
  by (induction us) auto

lemma find_in_Some: "find_in em us = Some u \<Longrightarrow> u \<in> set us \<and> email u = em"
  by (induction us) (auto split: if_splits)

lemma find_in_append_new:
  "find_in em us = None \<Longrightarrow> email u = em \<Longrightarrow> find_in em (us @ [u]) = Some u"
  by (induction us) (auto split: if_splits)

lemma find_user_eq: "find_user em db = (find_in em (init_user_db db), Some (init_user_db db))"
  by (simp add: find_user_def get_users_def Let_def)

lemma init_user_db_Some: "init_user_db (Some us) = us"
  by (simp add: init_user_db_def)

lemma register_user_eq:
  "register_user gen salt now em pw fn ln db =
     (case find_in em (init_user_db db) of
        Some u \<Rightarrow> ((False, ''Email already registered''), Some (init_user_db db))
      | None \<Rightarrow> ((True, ''''),
          Some (init_user_db db @ [\<lparr>email = em, password = gen salt pw, first_name = fn,
                                     last_name = ln, created_at = now\<rparr>])))"
  by (simp add: register_user_def find_user_eq get_users_def save_users_def init_user_db_Some
      Let_def split: option.splits)

lemma verify_user_eq:
  "verify_user check em pw db =
     (case find_in em (init_user_db db) of
        None \<Rightarrow> ((False, Inl ''User not found''), Some (init_user_db db))
      | Some u \<Rightarrow>
          (if check (password u) pw then ((True, Inr u), Some (init_user_db db))
           else ((False, Inl ''Incorrect password''), Some (init_user_db db))))"
  by (simp add: verify_user_def find_user_eq split: option.splits)

lemma demo_check_gen: "demo_check (demo_gen salt pw) pw"
  by (simp add: demo_check_def demo_gen_def)

lemma stored_init: "init_user_db db = stored db"
  by (simp add: init_user_db_def stored_def)

lemma find_in_distinct:
  "distinct (map email us) \<Longrightarrow> u \<in> set us \<Longrightarrow> email u = em \<Longrightarrow> find_in em us = Some u"
  by (induction us) (auto simp: image_iff)

lemma demo_gen_neq: "demo_gen salt pw \<noteq> pw"
proof
  assume "demo_gen salt pw = pw"
  then have "length (demo_gen salt pw) = length pw" by simp
  then show False by (simp add: demo_gen_def)
qed

lemma dropWhile_all: "(\<forall>x \<in> set (dropWhile P xs). P x) \<longleftrightarrow> (\<forall>x \<in> set xs. P x)"
  by (induction xs) auto

lemma strip_Nil_iff: "strip s = [] \<longleftrightarrow> (\<forall>c \<in> set s. py_isspace c)"
  by (simp add: strip_def dropWhile_eq_Nil_conv dropWhile_all)

text \<open>Whatever a call does, a stored record was already there or is the one it registers.\<close>

lemma run_call_stored:
  "u \<in> set (stored (run_call gen check c db)) \<Longrightarrow>
     u \<in> set (stored db) \<or>
     (\<exists>salt now em pw fn ln. c = Register salt now em pw fn ln \<and>
        u = \<lparr>email = em, password = gen salt pw, first_name = fn,
              last_name = ln, created_at = now\<rparr>)"
  by (cases c)
     (auto simp: register_user_eq verify_user_eq stored_init stored_def
        split: option.splits if_splits)

lemma run_calls_stored:
  "u \<in> set (stored (run_calls gen check cs db)) \<Longrightarrow>
     u \<in> set (stored db) \<or>
     (\<exists>salt now em pw fn ln. Register salt now em pw fn ln \<in> set cs \<and>
        u = \<lparr>email = em, password = gen salt pw, first_name = fn,
              last_name = ln, created_at = now\<rparr>)"
proof (induction cs arbitrary: db)
  case Nil
  then show ?case by simp
next
  case (Cons c cs)
  from Cons.prems have "u \<in> set (stored (run_calls gen check cs (run_call gen check c db)))"
    by simp
  from Cons.IH [OF this] show ?case
  proof
    assume "u \<in> set (stored (run_call gen check c db))"
    from run_call_stored [OF this] show ?thesis
    proof
      assume "u \<in> set (stored db)"
      then show ?thesis ..
    next
      assume "\<exists>salt now em pw fn ln. c = Register salt now em pw fn ln \<and>
        u = \<lparr>email = em, password = gen salt pw, first_name = fn,
              last_name = ln, created_at = now\<rparr>"
      then obtain salt now em pw fn ln where
        c: "c = Register salt now em pw fn ln" and
        u: "u = \<lparr>email = em, password = gen salt pw, first_name = fn,
              last_name = ln, created_at = now\<rparr>"
        by blast
      from c have "Register salt now em pw fn ln \<in> set (c # cs)" by simp
      with u show ?thesis by blast
    qed
  next
    assume "\<exists>salt now em pw fn ln. Register salt now em pw fn ln \<in> set cs \<and>
        u = \<lparr>email = em, password = gen salt pw, first_name = fn,
              last_name = ln, created_at = now\<rparr>"
    then obtain salt now em pw fn ln where
      c: "Register salt now em pw fn ln \<in> set cs" and
      u: "u = \<lparr>email = em, password = gen salt pw, first_name = fn,
            last_name = ln, created_at = now\<rparr>"
      by blast
    from c have "Register salt now em pw fn ln \<in> set (c # cs)" by simp
    with u show ?thesis by blast
  qed
qed

section \<open>What verification returns\<close>

text \<open>
  Claim C1, as the code has it: \<^verbatim>\<open>verify_user\<close> succeeds exactly with the record that
  \<^verbatim>\<open>find_user\<close> found, when the hash check accepts the password; the record is returned
  whole, its \<^verbatim>\<open>password\<close> field (the stored hash) included. When the check rejects the
  password the result is the fixed pair \<^verbatim>\<open>(False, "Incorrect password")\<close>, which carries
  nothing of the store.
\<close>

theorem verify_user_result:
  "(fst (verify_user check em pw db) = (True, Inr u)
      \<longleftrightarrow> find_in em (stored db) = Some u \<and> check (password u) pw) \<and>
   (find_in em (stored db) = Some u \<and> \<not> check (password u) pw
      \<longrightarrow> fst (verify_user check em pw db) = (False, Inl ''Incorrect password''))"
  by (auto simp: verify_user_eq stored_init split: option.splits)

text \<open>The theorem at the sample record, with a wrong password.\<close>

theorem verify_user_result_witness:
  "find_in ''a@x.com'' (stored (Some [alice])) = Some alice \<and>
   \<not> demo_check (password alice) ''no'' \<and>
   fst (verify_user demo_check ''a@x.com'' ''no'' (Some [alice]))
     = (False, Inl ''Incorrect password'')"
  using verify_user_result [of demo_check "''a@x.com''" "''no''" "Some [alice]" alice]
  by (simp add: stored_def alice_def demo_check_def)

text \<open>
  Claim C1 as the spec words it fails: with the right password the result is the stored
  record itself, and its \<^verbatim>\<open>password\<close> field is the stored hash.
\<close>

theorem verify_user_returns_hash:
  "fst (verify_user demo_check ''a@x.com'' ''pw'' (Some [alice])) = (True, Inr alice) \<and>
   password alice = ''s$wp''"
  by (simp add: verify_user_eq init_user_db_def alice_def demo_check_def)

section \<open>Failures of the remote call\<close>

text \<open>
  Claim C2, as the code has it: when the request raises an \<^verbatim>\<open>httpx.RequestError\<close> (a
  timeout, a connection error), \<^verbatim>\<open>generate_ai_response\<close> returns the connection fallback;
  when the response has a status outside 200..299, \<^verbatim>\<open>raise_for_status\<close> raises an
  \<^verbatim>\<open>HTTPStatusError\<close>, the second handler catches it and the function returns the other
  fallback. In both cases it returns and raises nothing.
\<close>

theorem generate_ai_response_failures:
  "(post (api_url api_key) (payload user_message) = Raises e \<and> is_RequestError e
      \<longrightarrow> generate_ai_response post api_key user_message = Inr (JStr connect_fallback)) \<and>
   (post (api_url api_key) (payload user_message) = Response status body
      \<and> \<not> (200 \<le> status \<and> status < 300)
      \<longrightarrow> generate_ai_response post api_key user_message = Inr (JStr unexpected_fallback))"
  by (auto simp: generate_ai_response_def request_reply_def raise_for_status_def and_then_def)

text \<open>The theorem at a timeout and at a 404 response.\<close>

theorem generate_ai_response_failures_witness:
  "is_RequestError TimeoutException \<and>
   generate_ai_response (always (Raises TimeoutException)) ''k'' ''hi''
     = Inr (JStr ''Error: Could not connect to the AI service.'') \<and>
   \<not> (200 \<le> (404::nat) \<and> (404::nat) < 300) \<and>
   generate_ai_response (always (Response 404 None)) ''k'' ''hi''
     = Inr (JStr ''An unexpected error occurred while generating the response.'')"
  using generate_ai_response_failures
          [of "always (Raises TimeoutException)" "''k''" "''hi''" TimeoutException 404 None]
        generate_ai_response_failures
          [of "always (Response 404 None)" "''k''" "''hi''" TimeoutException 404 None]
  by (simp add: always_def connect_fallback_def unexpected_fallback_def)

text \<open>
  Claim C2 as the spec words it fails for a status outside 2xx: on a 500 response the
  function returns the fallback of the second handler, not the connection fallback.
\<close>

theorem http_500_gets_unexpected_fallback:
  "generate_ai_response (always (Response 500 None)) ''k'' ''hi''
     = Inr (JStr ''An unexpected error occurred while generating the response.'') \<and>
   generate_ai_response (always (Response 500 None)) ''k'' ''hi''
     \<noteq> Inr (JStr ''Error: Could not connect to the AI service.'')"
  by (simp add: generate_ai_response_def always_def request_reply_def raise_for_status_def
      and_then_def unexpected_fallback_def)

section \<open>Registration followed by verification\<close>

text \<open>
  Claim C3: when \<^verbatim>\<open>register_user\<close> succeeds, \<^verbatim>\<open>verify_user\<close> with the same email and
  password on the file it leaves succeeds and returns the record with the first and last
  name given at registration. The hypothesis on \<open>check\<close> and \<open>gen\<close> is the contract of
  the hashing library: a hash checks against the password it was made from.
\<close>

theorem register_then_verify:
  assumes "check (gen salt pw) pw"
    and "fst (register_user gen salt now em pw fn ln db) = (True, '''')"
  shows "fst (verify_user check em pw (snd (register_user gen salt now em pw fn ln db)))
     = (True, Inr \<lparr>email = em, password = gen salt pw, first_name = fn,
                   last_name = ln, created_at = now\<rparr>)"
  using assms
  by (auto simp: register_user_eq verify_user_eq init_user_db_Some find_in_append_new
      split: option.splits)

text \<open>The spec's example, on a fresh deployment.\<close>

theorem register_then_verify_witness:
  "demo_check (demo_gen ''s'' ''pw'') ''pw'' \<and>
   fst (register_user demo_gen ''s'' ''t'' ''a@x.com'' ''pw'' ''A'' ''B'' None) = (True, '''') \<and>
   fst (verify_user demo_check ''a@x.com'' ''pw''
          (snd (register_user demo_gen ''s'' ''t'' ''a@x.com'' ''pw'' ''A'' ''B'' None)))
     = (True, Inr \<lparr>email = ''a@x.com'', password = ''s$wp'', first_name = ''A'',
                   last_name = ''B'', created_at = ''t''\<rparr>)"
  using register_then_verify
          [of demo_check demo_gen "''s''" "''pw''" "''t''" "''a@x.com''" "''A''" "''B''" None]
  by (simp add: register_user_eq init_user_db_def demo_check_def demo_gen_def)

section \<open>Duplicate emails\<close>

text \<open>
  Claim C4: \<^verbatim>\<open>register_user\<close> fails with \<^verbatim>\<open>(False, "Email already registered")\<close> exactly
  when a stored record has an email equal, as a string, to the one given; and whatever
  the first registration of an email did, a second one of the same email fails so.
\<close>

theorem register_duplicate_iff:
  "(fst (register_user gen salt now em pw fn ln db) = DuplicateEmail
      \<longleftrightarrow> (\<exists>u \<in> set (stored db). email u = em)) \<and>
   fst (register_user gen' salt' now' em pw' fn' ln'
          (snd (register_user gen salt now em pw fn ln db))) = DuplicateEmail"
proof (intro conjI)
  show "fst (register_user gen salt now em pw fn ln db) = DuplicateEmail
      \<longleftrightarrow> (\<exists>u \<in> set (stored db). email u = em)"
    using find_in_None [of em "stored db"]
    by (auto simp: register_user_eq stored_init DuplicateEmail_def split: option.splits)
next
  let ?db = "snd (register_user gen salt now em pw fn ln db)"
  have "\<exists>u \<in> set (init_user_db ?db). email u = em"
  proof (cases "find_in em (init_user_db db)")
    case None
    then show ?thesis by (simp add: register_user_eq init_user_db_Some)
  next
    case (Some u)
    then show ?thesis
      using find_in_Some [of em "init_user_db db" u]
      by (auto simp: register_user_eq init_user_db_Some)
  qed
  then have "find_in em (init_user_db ?db) \<noteq> None"
    by (simp add: find_in_None)
  then show "fst (register_user gen' salt' now' em pw' fn' ln' ?db) = DuplicateEmail"
    by (auto simp: register_user_eq [of gen' salt' now' em pw' fn' ln' ?db] DuplicateEmail_def)
qed

text \<open>The sample email is refused; the same email with a capital letter is not.\<close>

theorem register_duplicate_iff_witness:
  "fst (register_user demo_gen ''s2'' ''t2'' ''a@x.com'' ''pw2'' ''C'' ''D'' (Some [alice]))
     = DuplicateEmail \<and>
   fst (register_user demo_gen ''s2'' ''t2'' ''A@x.com'' ''pw2'' ''C'' ''D'' (Some [alice]))
     \<noteq> DuplicateEmail"
  using register_duplicate_iff
          [of demo_gen "''s2''" "''t2''" "''a@x.com''" "''pw2''" "''C''" "''D''" "Some [alice]"]
        register_duplicate_iff
          [of demo_gen "''s2''" "''t2''" "''A@x.com''" "''pw2''" "''C''" "''D''" "Some [alice]"]
  by (simp add: stored_def alice_def)

section \<open>Failures of verification\<close>

text \<open>
  Claim C5: \<^verbatim>\<open>verify_user\<close> fails with \<^verbatim>\<open>(False, "User not found")\<close> exactly when no stored
  record has the email, and with \<^verbatim>\<open>(False, "Incorrect password")\<close> exactly when the record
  found for the email has a hash that the check rejects for the password. When emails
  are unique in the file, that is: exactly when a stored record has the email and a hash
  that the check rejects.
\<close>

theorem verify_user_failures:
  "(fst (verify_user check em pw db) = UserNotFound
      \<longleftrightarrow> (\<forall>u \<in> set (stored db). email u \<noteq> em)) \<and>
   (fst (verify_user check em pw db) = BadPassword
      \<longleftrightarrow> (\<exists>u. find_in em (stored db) = Some u \<and> \<not> check (password u) pw)) \<and>
   (distinct (map email (stored db)) \<longrightarrow>
      (fst (verify_user check em pw db) = BadPassword
        \<longleftrightarrow> (\<exists>u \<in> set (stored db). email u = em \<and> \<not> check (password u) pw)))"
proof (intro conjI impI)
  show "fst (verify_user check em pw db) = UserNotFound
      \<longleftrightarrow> (\<forall>u \<in> set (stored db). email u \<noteq> em)"
    using find_in_None [of em "stored db"]
    by (auto simp: verify_user_eq stored_init UserNotFound_def split: option.splits)
next
  show bad: "fst (verify_user check em pw db) = BadPassword
      \<longleftrightarrow> (\<exists>u. find_in em (stored db) = Some u \<and> \<not> check (password u) pw)"
    by (auto simp: verify_user_eq stored_init BadPassword_def split: option.splits)
  assume "distinct (map email (stored db))"
  then have "(\<exists>u. find_in em (stored db) = Some u \<and> \<not> check (password u) pw)
      \<longleftrightarrow> (\<exists>u \<in> set (stored db). email u = em \<and> \<not> check (password u) pw)"
    using find_in_distinct [of "stored db" _ em] find_in_Some [of em "stored db"]
    by blast
  with bad show "fst (verify_user check em pw db) = BadPassword
        \<longleftrightarrow> (\<exists>u \<in> set (stored db). email u = em \<and> \<not> check (password u) pw)"
    by simp
qed

text \<open>An unknown email and a wrong password, on the file holding the sample record.\<close>

theorem verify_user_failures_witness:
  "distinct (map email (stored (Some [alice]))) \<and>
   fst (verify_user demo_check ''b@x.com'' ''pw'' (Some [alice])) = UserNotFound \<and>
   fst (verify_user demo_check ''a@x.com'' ''no'' (Some [alice])) = BadPassword \<and>
   fst (verify_user demo_check ''a@x.com'' ''pw'' (Some [alice])) \<noteq> BadPassword"
  using verify_user_failures [of demo_check "''b@x.com''" "''pw''" "Some [alice]"]
        verify_user_failures [of demo_check "''a@x.com''" "''no''" "Some [alice]"]
        verify_user_failures [of demo_check "''a@x.com''" "''pw''" "Some [alice]"]
  by (simp add: stored_def alice_def demo_check_def)

section \<open>Empty chat messages\<close>

text \<open>
  Claim C6: with a user in the session, when the JSON object of the request has no
  \<^verbatim>\<open>message\<close> key, or has a string there that is empty or all whitespace,
  \<^verbatim>\<open>send_message\<close> answers with status 400 and \<^verbatim>\<open>generate_ai_response\<close> is not called.
\<close>

theorem send_message_empty:
  assumes "map_of session ''user'' \<noteq> None"
    and "map_of kvs ''message'' = None \<or>
         (\<exists>s. map_of kvs ''message'' = Some (JStr s) \<and> (\<forall>c \<in> set s. py_isspace c))"
  shows "send_message post api_key session (JObj kvs)
     = (Inr (JObj [(''error'', JStr ''Message cannot be empty'')], 400), [])"
  using assms by (auto simp: send_message_def strip_Nil_iff)

text \<open>A message of a space and a tab, and a body without a message.\<close>

theorem send_message_empty_witness:
  "map_of [(''user'', JObj [(''email'', JStr ''a@x.com'')])] ''user'' \<noteq> None \<and>
   py_isspace (CHR 0x20) \<and> py_isspace (CHR 0x09) \<and>
   send_message (always (Response 200 None)) ''k''
       [(''user'', JObj [(''email'', JStr ''a@x.com'')])]
       (JObj [(''message'', JStr [CHR 0x20, CHR 0x09])])
     = (Inr (JObj [(''error'', JStr ''Message cannot be empty'')], 400), []) \<and>
   send_message (always (Response 200 None)) ''k''
       [(''user'', JObj [(''email'', JStr ''a@x.com'')])] (JObj [])
     = (Inr (JObj [(''error'', JStr ''Message cannot be empty'')], 400), [])"
  using send_message_empty
          [of "[(''user'', JObj [(''email'', JStr ''a@x.com'')])]"
              "[(''message'', JStr [CHR 0x20, CHR 0x09])]" "always (Response 200 None)" "''k''"]
        send_message_empty
          [of "[(''user'', JObj [(''email'', JStr ''a@x.com'')])]"
              "[]" "always (Response 200 None)" "''k''"]
  by (simp add: py_isspace_def)

section \<open>Passwords in the store\<close>

text \<open>
  Claim C7: in every file reached from the absent one by calls of \<^verbatim>\<open>register_user\<close> and
  \<^verbatim>\<open>verify_user\<close>, each stored record comes from a registration of its email and holds
  in its \<^verbatim>\<open>password\<close> field the salted hash of the password of that registration, not
  the password; and \<^verbatim>\<open>verify_user\<close> succeeds exactly when the hash check accepts the given
  password for the hash of the record found, whatever the two strings are. The
  hypothesis is the property of the hashing library that the claim relies on: a hash
  differs from the password it was made from.
\<close>

theorem password_never_plaintext:
  assumes "\<forall>salt pw. gen salt pw \<noteq> pw"
  shows "(\<forall>u \<in> set (stored (run_calls gen check cs None)).
            \<exists>salt now pw fn ln. Register salt now (email u) pw fn ln \<in> set cs \<and>
               password u = gen salt pw \<and> password u \<noteq> pw) \<and>
         ((\<exists>u. fst (verify_user check em pw' db) = (True, Inr u))
            \<longleftrightarrow> (\<exists>u. find_in em (stored db) = Some u \<and> check (password u) pw'))"
proof (intro conjI ballI)
  fix u assume "u \<in> set (stored (run_calls gen check cs None))"
  from run_calls_stored [OF this]
  obtain salt now em pw fn ln where
    "Register salt now em pw fn ln \<in> set cs"
    "u = \<lparr>email = em, password = gen salt pw, first_name = fn,
          last_name = ln, created_at = now\<rparr>"
    unfolding stored_def by (simp only: option.case list.set empty_iff) blast
  then have "Register salt now (email u) pw fn ln \<in> set cs" "password u = gen salt pw"
    by simp_all
  with assms show "\<exists>salt now pw fn ln. Register salt now (email u) pw fn ln \<in> set cs \<and>
               password u = gen salt pw \<and> password u \<noteq> pw"
    by metis
next
  show "(\<exists>u. fst (verify_user check em pw' db) = (True, Inr u))
            \<longleftrightarrow> (\<exists>u. find_in em (stored db) = Some u \<and> check (password u) pw')"
    by (auto simp: verify_user_eq stored_init split: option.splits)
qed

text \<open>
  A sign-up, a login and a second sign-up from the absent file: no stored password field
  is one of the passwords given, and the stored hash itself does not log in.
\<close>

theorem password_never_plaintext_witness:
  "(\<forall>salt pw. demo_gen salt pw \<noteq> pw) \<and>
   map password (stored (run_calls demo_gen demo_check
      [Register ''s'' ''t'' ''a@x.com'' ''pw'' ''A'' ''B'', Verify ''a@x.com'' ''pw'',
       Register ''s2'' ''t2'' ''b@x.com'' ''pw2'' ''C'' ''D''] None)) = [''s$wp'', ''s2$2wp''] \<and>
   fst (verify_user demo_check ''a@x.com'' ''s$wp'' (Some [alice]))
     = (False, Inl ''Incorrect password'')"
  using password_never_plaintext
          [of demo_gen demo_check
              "[Register ''s'' ''t'' ''a@x.com'' ''pw'' ''A'' ''B'', Verify ''a@x.com'' ''pw'',
                Register ''s2'' ''t2'' ''b@x.com'' ''pw2'' ''C'' ''D'']"
              "''a@x.com''" "''s$wp''" "Some [alice]"]
        demo_gen_neq
  by (simp add: register_user_eq verify_user_eq init_user_db_def stored_def demo_gen_def
      demo_check_def alice_def)

section \<open>What registration writes\<close>

text \<open>
  Claim C8: when \<^verbatim>\<open>register_user\<close> succeeds, the file it leaves holds the records stored
  before, in their order and unchanged, followed by the one new record.
\<close>

theorem register_user_appends:
  "fst (register_user gen salt now em pw fn ln db) = (True, '''') \<Longrightarrow>
   snd (register_user gen salt now em pw fn ln db)
     = Some (stored db @ [\<lparr>email = em, password = gen salt pw, first_name = fn,
                            last_name = ln, created_at = now\<rparr>])"
  by (auto simp: register_user_eq stored_init split: option.splits)

text \<open>A second account, registered after the sample one.\<close>

theorem register_user_appends_witness:
  "fst (register_user demo_gen ''s2'' ''t2'' ''b@x.com'' ''pw2'' ''C'' ''D'' (Some [alice]))
     = (True, '''') \<and>
   snd (register_user demo_gen ''s2'' ''t2'' ''b@x.com'' ''pw2'' ''C'' ''D'' (Some [alice]))
     = Some [alice, \<lparr>email = ''b@x.com'', password = ''s2$2wp'', first_name = ''C'',
                      last_name = ''D'', created_at = ''t2''\<rparr>]"
  using register_user_appends
          [of demo_gen "''s2''" "''t2''" "''b@x.com''" "''pw2''" "''C''" "''D''" "Some [alice]"]
  by (simp add: register_user_eq init_user_db_def stored_def demo_gen_def alice_def)

section \<open>Calls that leave the store alone\<close>

text \<open>
  Claim C9, as the code has it: a registration refused as a duplicate leaves the file as
  it was. \<^verbatim>\<open>verify_user\<close> leaves the stored records as they were, and an existing file
  untouched; its one possible write is that of \<^verbatim>\<open>init_user_db\<close>, which creates an absent
  file with the empty list.
\<close>

theorem failed_calls_frame:
  "(fst (register_user gen salt now em pw fn ln db) = DuplicateEmail
      \<longrightarrow> snd (register_user gen salt now em pw fn ln db) = db) \<and>
   stored (snd (verify_user check em' pw' db)) = stored db \<and>
   (db \<noteq> None \<longrightarrow> snd (verify_user check em' pw' db) = db)"
  by (cases db)
     (auto simp: register_user_eq verify_user_eq init_user_db_def stored_def DuplicateEmail_def
        split: option.splits)

text \<open>A refused registration and a login, on the file holding the sample record.\<close>

theorem failed_calls_frame_witness:
  "fst (register_user demo_gen ''s2'' ''t2'' ''a@x.com'' ''pw2'' ''C'' ''D'' (Some [alice]))
     = DuplicateEmail \<and>
   snd (register_user demo_gen ''s2'' ''t2'' ''a@x.com'' ''pw2'' ''C'' ''D'' (Some [alice]))
     = Some [alice] \<and>
   Some [alice] \<noteq> None \<and>
   snd (verify_user demo_check ''a@x.com'' ''pw'' (Some [alice])) = Some [alice]"
  using failed_calls_frame
          [of demo_gen "''s2''" "''t2''" "''a@x.com''" "''pw2''" "''C''" "''D''" "Some [alice]"
              demo_check "''a@x.com''" "''pw''"]
  by (simp add: register_user_eq init_user_db_def DuplicateEmail_def alice_def)

text \<open>
  Claim C9 as the spec words it fails for \<^verbatim>\<open>verify_user\<close> on a fresh deployment: the
  file is absent before the call and exists, holding the empty list, after it.
\<close>

theorem verify_user_creates_file:
  "snd (verify_user demo_check ''a@x.com'' ''pw'' None) = Some [] \<and>
   snd (verify_user demo_check ''a@x.com'' ''pw'' None) \<noteq> None"
  by (simp add: verify_user_eq init_user_db_def)

section \<open>No validation at registration\<close>

text \<open>
  Claim C10: \<^verbatim>\<open>register_user\<close> checks nothing but the absence of the email. Whatever the
  four strings are, when no stored record has the email the call succeeds and appends
  the record made of them; so it does for four empty strings.
\<close>

theorem register_user_accepts_all:
  "\<forall>u \<in> set (stored db). email u \<noteq> em \<Longrightarrow>
   register_user gen salt now em pw fn ln db
     = ((True, ''''), Some (stored db @ [\<lparr>email = em, password = gen salt pw, first_name = fn,
                                           last_name = ln, created_at = now\<rparr>]))"
  using find_in_None [of em "stored db"]
  by (simp add: register_user_eq stored_init)

text \<open>Four empty strings, registered after the sample record.\<close>

theorem register_user_accepts_all_witness:
  "'''' \<notin> set (map email (stored (Some [alice]))) \<and>
   register_user demo_gen ''s'' ''t'' '''' '''' '''' '''' (Some [alice])
     = ((True, ''''), Some [alice, \<lparr>email = '''', password = ''s$'', first_name = '''',
                                     last_name = '''', created_at = ''t''\<rparr>])"
  using register_user_accepts_all [of "Some [alice]" "''''" demo_gen "''s''" "''t''" "''''" "''''" "''''"]
  by (simp add: stored_def alice_def demo_gen_def)

end
